theory Spec2Isabelle
  imports Main "HOL-Library.AList"
begin

section \<open>Identifiers\<close>

text \<open>
  \<^verbatim>\<open>primitive.ObjectID\<close> is \<^verbatim>\<open>[12]byte\<close>; a byte is a natural number below 256.
  \<^verbatim>\<open>primitive.ObjectIDFromHex\<close> accepts exactly the strings of 24 hexadecimal digits
  (either case): it refuses any other length with \<^verbatim>\<open>ErrInvalidHex\<close> and hands on the
  error of \<^verbatim>\<open>hex.Decode\<close>, which names the first byte that is no hexadecimal digit
  (\<open>hexDecode\<close> reads the digits in pairs; it is applied to strings of even length only).
\<close>

type_synonym ObjectID = "nat list"

type_synonym Time = nat

definition NilObjectID :: ObjectID where
  "NilObjectID = replicate 12 0"

definition fromHexChar :: "char \<Rightarrow> nat option" where
  "fromHexChar c =
     (let n = (of_char c :: nat) in
      if 48 \<le> n \<and> n \<le> 57 then Some (n - 48)
      else if 97 \<le> n \<and> n \<le> 102 then Some (n - 97 + 10)
      else if 65 \<le> n \<and> n \<le> 70 then Some (n - 65 + 10)
      else None)"

fun hexDecode :: "string \<Rightarrow> char + nat list" where
  "hexDecode (a # b # cs) =
     (case fromHexChar a of
        None \<Rightarrow> Inl a
      | Some x \<Rightarrow>
          (case fromHexChar b of
             None \<Rightarrow> Inl b
           | Some y \<Rightarrow>
               (case hexDecode cs of
                  Inl c \<Rightarrow> Inl c
                | Inr bs \<Rightarrow> Inr ((16 * x + y) # bs))))"
| "hexDecode cs = Inr []"

section \<open>Documents, collections and the driver\<close>

text \<open>
  The document store is an external collaborator. A collection is the list of its
  documents in insertion order; a document is an association list from field names to
  values, in field order. Field names are opaque keys: the path syntax of the store
  (dots, a leading dollar sign) and the \<^verbatim>\<open>_id\<close> the driver adds to every inserted
  document, which no handler reads or writes, are outside the model.
\<close>

datatype bvalue =
    VNull
  | VBool bool
  | VNum int
  | VStr string
  | VOid ObjectID
  | VTime Time
  | VArr "bvalue list"
  | VDoc "(string \<times> bvalue) list"

type_synonym doc = "(string \<times> bvalue) list"

datatype coll = BookColl | NoteColl

text \<open>A filter \<^verbatim>\<open>bson.M{key: oid}\<close>: every filter of the handlers has this shape.\<close>

type_synonym query = "string \<times> ObjectID"

datatype update =
    Set doc
  | Push string bvalue
  | Pull string bvalue

datatype dbop =
    OpFindOne query
  | OpInsertOne doc
  | OpUpdateOne query update
  | OpFindOneAndUpdate query update
  | OpDeleteOne query
  | OpDeleteMany query

text \<open>
  The errors a handler can answer with. \<open>ErrInvalidHex\<close> and \<open>InvalidByteError\<close> are the
  two errors of \<^verbatim>\<open>ObjectIDFromHex\<close> (the spec's \<^verbatim>\<open>InvalidFormat\<close>); \<open>InvalidId\<close> is
  \<^verbatim>\<open>fmt.Errorf("Invalid id")\<close> (the spec's \<^verbatim>\<open>InvalidIdentifier\<close>); \<open>NotExist\<close> is
  \<^verbatim>\<open>"Book %v does not exist"\<close> and \<open>NoMatch\<close> is \<^verbatim>\<open>"id %v does not match any book"\<close>
  (the spec's \<^verbatim>\<open>NotFound\<close>); \<open>CannotRemove\<close> is \<^verbatim>\<open>"Cannot remove note %v from book %v"\<close>
  (the spec's \<^verbatim>\<open>DetachFailed\<close>). \<open>ErrNoDocuments\<close> is the driver's
  \<^verbatim>\<open>mongo.ErrNoDocuments\<close>; \<open>DriverError\<close> is any failure of a driver call (network,
  timeout), tagged with the call that failed, and \<open>WriteError\<close> is the server refusing an
  update (the spec's \<^verbatim>\<open>StoreError\<close>).
\<close>

datatype error =
    ErrInvalidHex
  | InvalidByteError char
  | InvalidId
  | NotExist string
  | NoMatch ObjectID
  | CannotRemove ObjectID ObjectID
  | ErrNoDocuments
  | DriverError coll dbop
  | WriteError coll dbop

definition ObjectIDFromHex :: "string \<Rightarrow> error + ObjectID" where
  "ObjectIDFromHex s =
     (if length s \<noteq> 24 then Inl ErrInvalidHex
      else (case hexDecode s of
              Inl c \<Rightarrow> Inl (InvalidByteError c)
            | Inr b \<Rightarrow> Inr b))"

text \<open>
  \<^verbatim>\<open>Service\<close> holds the two collection handles; here each handle is the content of its
  collection. Three more fields make the environment explicit: \<open>faults\<close> is the outcome
  of the driver calls to come, one flag per call in the order they are issued (\<open>True\<close>:
  the call fails with a \<open>DriverError\<close> and changes nothing; an exhausted list means no
  failure); \<open>trace\<close> is the driver calls issued so far; \<open>logs\<close> is what \<^verbatim>\<open>log.Printf\<close>
  and \<^verbatim>\<open>log.Println\<close> wrote (the format string of each message, a line break inside
  it written as a space).
\<close>

record Service =
  bookCollection :: "doc list"
  noteCollection :: "doc list"
  faults :: "bool list"
  trace :: "(coll \<times> dbop) list"
  logs :: "string list"

definition Printf :: "string \<Rightarrow> Service \<Rightarrow> Service" where
  "Printf msg s = s\<lparr>logs := logs s @ [msg]\<rparr>"

fun docs :: "coll \<Rightarrow> Service \<Rightarrow> doc list" where
  "docs BookColl s = bookCollection s"
| "docs NoteColl s = noteCollection s"

fun setDocs :: "coll \<Rightarrow> doc list \<Rightarrow> Service \<Rightarrow> Service" where
  "setDocs BookColl ds s = s\<lparr>bookCollection := ds\<rparr>"
| "setDocs NoteColl ds s = s\<lparr>noteCollection := ds\<rparr>"

text \<open>
  Every driver call is recorded in the trace and consumes one fault flag; \<open>nextFails\<close>
  tells whether the next call fails.
\<close>

definition nextFails :: "Service \<Rightarrow> bool" where
  "nextFails s = (case faults s of [] \<Rightarrow> False | f # _ \<Rightarrow> f)"

definition call :: "coll \<Rightarrow> dbop \<Rightarrow> Service \<Rightarrow> bool \<times> Service" where
  "call c op s = (nextFails s, s\<lparr>faults := tl (faults s), trace := trace s @ [(c, op)]\<rparr>)"

text \<open>
  An equality filter on an identifier matches a document whose field is that identifier,
  or is an array that holds it.
\<close>

definition matches :: "query \<Rightarrow> doc \<Rightarrow> bool" where
  "matches q d =
     (case map_of d (fst q) of
        Some (VOid y) \<Rightarrow> y = snd q
      | Some (VArr xs) \<Rightarrow> VOid (snd q) \<in> set xs
      | _ \<Rightarrow> False)"

fun replaceFirst :: "('a \<Rightarrow> bool) \<Rightarrow> 'a \<Rightarrow> 'a list \<Rightarrow> 'a list" where
  "replaceFirst P y [] = []"
| "replaceFirst P y (x # xs) = (if P x then y # xs else x # replaceFirst P y xs)"

fun deleteFirst :: "('a \<Rightarrow> bool) \<Rightarrow> 'a list \<Rightarrow> 'a list" where
  "deleteFirst P [] = []"
| "deleteFirst P (x # xs) = (if P x then xs else x # deleteFirst P xs)"

text \<open>
  The three update operators the handlers use. \<^verbatim>\<open>$set\<close> overwrites or appends each
  field; \<^verbatim>\<open>$push\<close> appends to an array field, creating it when absent; \<^verbatim>\<open>$pull\<close>
  removes every element equal to the value and leaves a document without the field as
  it is. \<^verbatim>\<open>$push\<close> and \<^verbatim>\<open>$pull\<close> on a field that is no array are refused (\<open>None\<close>).
\<close>

fun applyUpdate :: "update \<Rightarrow> doc \<Rightarrow> doc option" where
  "applyUpdate (Set fs) d = Some (fold (\<lambda>(k, v). AList.update k v) fs d)"
| "applyUpdate (Push k v) d =
     (case map_of d k of
        None \<Rightarrow> Some (AList.update k (VArr [v]) d)
      | Some (VArr xs) \<Rightarrow> Some (AList.update k (VArr (xs @ [v])) d)
      | Some _ \<Rightarrow> None)"
| "applyUpdate (Pull k v) d =
     (case map_of d k of
        None \<Rightarrow> Some d
      | Some (VArr xs) \<Rightarrow> Some (AList.update k (VArr (filter (\<lambda>x. x \<noteq> v) xs)) d)
      | Some _ \<Rightarrow> None)"

record UpdateResult =
  MatchedCount :: int
  ModifiedCount :: int

text \<open>
  \<^verbatim>\<open>FindOne\<close> answers the first matching document, \<^verbatim>\<open>ErrNoDocuments\<close> when there is
  none.
\<close>

definition FindOne :: "coll \<Rightarrow> query \<Rightarrow> Service \<Rightarrow> (error + doc) \<times> Service" where
  "FindOne c q s =
     (let (failed, s1) = call c (OpFindOne q) s in
      if failed then (Inl (DriverError c (OpFindOne q)), s1)
      else (case find (matches q) (docs c s1) of
              None \<Rightarrow> (Inl ErrNoDocuments, s1)
            | Some d \<Rightarrow> (Inr d, s1)))"

definition InsertOne :: "coll \<Rightarrow> doc \<Rightarrow> Service \<Rightarrow> (error + unit) \<times> Service" where
  "InsertOne c d s =
     (let (failed, s1) = call c (OpInsertOne d) s in
      if failed then (Inl (DriverError c (OpInsertOne d)), s1)
      else (Inr (), setDocs c (docs c s1 @ [d]) s1))"

text \<open>
  \<^verbatim>\<open>UpdateOne\<close> updates the first matching document. A filter that matches nothing is
  no error: the result reports zero matched documents.
\<close>

definition UpdateOne ::
  "coll \<Rightarrow> query \<Rightarrow> update \<Rightarrow> Service \<Rightarrow> (error + UpdateResult) \<times> Service" where
  "UpdateOne c q u s =
     (let (failed, s1) = call c (OpUpdateOne q u) s in
      if failed then (Inl (DriverError c (OpUpdateOne q u)), s1)
      else (case find (matches q) (docs c s1) of
              None \<Rightarrow> (Inr \<lparr>MatchedCount = 0, ModifiedCount = 0\<rparr>, s1)
            | Some d \<Rightarrow>
                (case applyUpdate u d of
                   None \<Rightarrow> (Inl (WriteError c (OpUpdateOne q u)), s1)
                 | Some d' \<Rightarrow>
                     (Inr \<lparr>MatchedCount = 1, ModifiedCount = (if d' = d then 0 else 1)\<rparr>,
                      setDocs c (replaceFirst (matches q) d' (docs c s1)) s1))))"

text \<open>
  \<^verbatim>\<open>FindOneAndUpdate\<close> with default options updates the first matching document and
  answers the document as it was before the update; without a match it answers
  \<^verbatim>\<open>ErrNoDocuments\<close>.
\<close>

definition FindOneAndUpdate ::
  "coll \<Rightarrow> query \<Rightarrow> update \<Rightarrow> Service \<Rightarrow> (error + doc) \<times> Service" where
  "FindOneAndUpdate c q u s =
     (let (failed, s1) = call c (OpFindOneAndUpdate q u) s in
      if failed then (Inl (DriverError c (OpFindOneAndUpdate q u)), s1)
      else (case find (matches q) (docs c s1) of
              None \<Rightarrow> (Inl ErrNoDocuments, s1)
            | Some d \<Rightarrow>
                (case applyUpdate u d of
                   None \<Rightarrow> (Inl (WriteError c (OpFindOneAndUpdate q u)), s1)
                 | Some d' \<Rightarrow>
                     (Inr d, setDocs c (replaceFirst (matches q) d' (docs c s1)) s1))))"

definition DeleteOne :: "coll \<Rightarrow> query \<Rightarrow> Service \<Rightarrow> (error + int) \<times> Service" where
  "DeleteOne c q s =
     (let (failed, s1) = call c (OpDeleteOne q) s in
      if failed then (Inl (DriverError c (OpDeleteOne q)), s1)
      else (Inr (if find (matches q) (docs c s1) = None then 0 else 1),
            setDocs c (deleteFirst (matches q) (docs c s1)) s1))"

definition DeleteMany :: "coll \<Rightarrow> query \<Rightarrow> Service \<Rightarrow> (error + int) \<times> Service" where
  "DeleteMany c q s =
     (let (failed, s1) = call c (OpDeleteMany q) s in
      if failed then (Inl (DriverError c (OpDeleteMany q)), s1)
      else (Inr (int (length (filter (matches q) (docs c s1)))),
            setDocs c (filter (\<lambda>d. \<not> matches q d) (docs c s1)) s1))"

section \<open>Entities\<close>

text \<open>
  The structs \<^verbatim>\<open>Book\<close> and \<^verbatim>\<open>Note\<close>. The field \<open>ID\<close> of \<^verbatim>\<open>Book\<close> is \<open>Book_ID\<close> here,
  since \<open>ID\<close> names the field of \<^verbatim>\<open>Note\<close>. \<^verbatim>\<open>AddNote\<close> assigns \<^verbatim>\<open>note.CreateTime\<close>, so
  \<^verbatim>\<open>Note\<close> has that field.
\<close>

record Book =
  Book_ID :: ObjectID
  Title :: string
  Author :: string
  Status :: int
  StartTime :: Time
  EndTime :: Time
  Notes :: "ObjectID list"
  Description :: string

record Note =
  ID :: ObjectID
  BookID :: ObjectID
  Content :: string
  ReplyTo :: ObjectID
  CreateTime :: Time

definition zeroBook :: Book where
  "zeroBook =
     \<lparr>Book_ID = NilObjectID, Title = [], Author = [], Status = 0, StartTime = 0,
      EndTime = 0, Notes = [], Description = []\<rparr>"

definition zeroNote :: Note where
  "zeroNote =
     \<lparr>ID = NilObjectID, BookID = NilObjectID, Content = [], ReplyTo = NilObjectID,
      CreateTime = 0\<rparr>"

text \<open>
  The structs carry no \<^verbatim>\<open>bson\<close> tags, so the driver stores each field under its
  lower-cased name: these are the keys the handlers' filters and updates use
  (\<^verbatim>\<open>"id"\<close>, \<^verbatim>\<open>"bookid"\<close>, \<^verbatim>\<open>"notes"\<close>).
\<close>

definition bookDoc :: "Book \<Rightarrow> doc" where
  "bookDoc b =
     [(''id'', VOid (Book_ID b)), (''title'', VStr (Title b)), (''author'', VStr (Author b)),
      (''status'', VNum (Status b)), (''starttime'', VTime (StartTime b)),
      (''endtime'', VTime (EndTime b)), (''notes'', VArr (map VOid (Notes b))),
      (''description'', VStr (Description b))]"

definition noteDoc :: "Note \<Rightarrow> doc" where
  "noteDoc n =
     [(''id'', VOid (ID n)), (''bookid'', VOid (BookID n)), (''content'', VStr (Content n)),
      (''replyto'', VOid (ReplyTo n)), (''createtime'', VTime (CreateTime n))]"

text \<open>
  \<^verbatim>\<open>Decode\<close> into a struct reads the document's fields in order, skips a field the
  struct does not have, and stops with an error at the first value that is neither null
  nor of the field's type; what it has stored by then stays in the struct. Every handler
  drops that error, so the model returns the struct only.
\<close>

fun oids :: "bvalue list \<Rightarrow> ObjectID list option" where
  "oids [] = Some []"
| "oids (VOid x # vs) = map_option ((#) x) (oids vs)"
| "oids (v # vs) = None"

fun decodeBook :: "doc \<Rightarrow> Book \<Rightarrow> Book" where
  "decodeBook [] b = b"
| "decodeBook ((k, v) # d) b =
     (if k = ''id'' then
        (case v of VOid x \<Rightarrow> decodeBook d (b\<lparr>Book_ID := x\<rparr>)
         | VNull \<Rightarrow> decodeBook d (b\<lparr>Book_ID := NilObjectID\<rparr>) | _ \<Rightarrow> b)
      else if k = ''title'' then
        (case v of VStr x \<Rightarrow> decodeBook d (b\<lparr>Title := x\<rparr>)
         | VNull \<Rightarrow> decodeBook d (b\<lparr>Title := []\<rparr>) | _ \<Rightarrow> b)
      else if k = ''author'' then
        (case v of VStr x \<Rightarrow> decodeBook d (b\<lparr>Author := x\<rparr>)
         | VNull \<Rightarrow> decodeBook d (b\<lparr>Author := []\<rparr>) | _ \<Rightarrow> b)
      else if k = ''status'' then
        (case v of VNum x \<Rightarrow> decodeBook d (b\<lparr>Status := x\<rparr>)
         | VNull \<Rightarrow> decodeBook d (b\<lparr>Status := 0\<rparr>) | _ \<Rightarrow> b)
      else if k = ''starttime'' then
        (case v of VTime x \<Rightarrow> decodeBook d (b\<lparr>StartTime := x\<rparr>)
         | VNull \<Rightarrow> decodeBook d (b\<lparr>StartTime := 0\<rparr>) | _ \<Rightarrow> b)
      else if k = ''endtime'' then
        (case v of VTime x \<Rightarrow> decodeBook d (b\<lparr>EndTime := x\<rparr>)
         | VNull \<Rightarrow> decodeBook d (b\<lparr>EndTime := 0\<rparr>) | _ \<Rightarrow> b)
      else if k = ''notes'' then
        (case v of
           VArr xs \<Rightarrow> (case oids xs of Some ns \<Rightarrow> decodeBook d (b\<lparr>Notes := ns\<rparr>) | None \<Rightarrow> b)
         | VNull \<Rightarrow> decodeBook d (b\<lparr>Notes := []\<rparr>) | _ \<Rightarrow> b)
      else if k = ''description'' then
        (case v of VStr x \<Rightarrow> decodeBook d (b\<lparr>Description := x\<rparr>)
         | VNull \<Rightarrow> decodeBook d (b\<lparr>Description := []\<rparr>) | _ \<Rightarrow> b)
      else decodeBook d b)"

fun decodeNote :: "doc \<Rightarrow> Note \<Rightarrow> Note" where
  "decodeNote [] n = n"
| "decodeNote ((k, v) # d) n =
     (if k = ''id'' then
        (case v of VOid x \<Rightarrow> decodeNote d (n\<lparr>ID := x\<rparr>)
         | VNull \<Rightarrow> decodeNote d (n\<lparr>ID := NilObjectID\<rparr>) | _ \<Rightarrow> n)
      else if k = ''bookid'' then
        (case v of VOid x \<Rightarrow> decodeNote d (n\<lparr>BookID := x\<rparr>)
         | VNull \<Rightarrow> decodeNote d (n\<lparr>BookID := NilObjectID\<rparr>) | _ \<Rightarrow> n)
      else if k = ''content'' then
        (case v of VStr x \<Rightarrow> decodeNote d (n\<lparr>Content := x\<rparr>)
         | VNull \<Rightarrow> decodeNote d (n\<lparr>Content := []\<rparr>) | _ \<Rightarrow> n)
      else if k = ''replyto'' then
        (case v of VOid x \<Rightarrow> decodeNote d (n\<lparr>ReplyTo := x\<rparr>)
         | VNull \<Rightarrow> decodeNote d (n\<lparr>ReplyTo := NilObjectID\<rparr>) | _ \<Rightarrow> n)
      else if k = ''createtime'' then
        (case v of VTime x \<Rightarrow> decodeNote d (n\<lparr>CreateTime := x\<rparr>)
         | VNull \<Rightarrow> decodeNote d (n\<lparr>CreateTime := 0\<rparr>) | _ \<Rightarrow> n)
      else decodeNote d n)"

text \<open>
  \<^verbatim>\<open>res.Decode(&x)\<close> on the result of \<^verbatim>\<open>FindOne\<close>: when the lookup failed, the error is
  returned and \<^verbatim>\<open>x\<close> keeps its value.
\<close>

definition DecodeBook :: "error + doc \<Rightarrow> Book \<Rightarrow> Book" where
  "DecodeBook res b = (case res of Inl err \<Rightarrow> b | Inr d \<Rightarrow> decodeBook d b)"

definition DecodeNote :: "error + doc \<Rightarrow> Note \<Rightarrow> Note" where
  "DecodeNote res n = (case res of Inl err \<Rightarrow> n | Inr d \<Rightarrow> decodeNote d n)"

section \<open>Requests and responses\<close>

text \<open>
  The request binder (\<^verbatim>\<open>c.ShouldBindJSON\<close>) is an external collaborator. A request body
  is given by what the binder does with it: \<open>Bind x\<close> when it decodes the body into \<open>x\<close>
  and reports no error, \<open>BindErr x\<close> when it reports an error and leaves \<open>x\<close> in the
  target (the zero value, or the empty map, for a body it cannot parse; an identifier
  field whose text is no identifier is an error of the binder, since the field's type is
  \<^verbatim>\<open>primitive.ObjectID\<close>). \<open>ShouldBindJSON\<close> returns the target and whether an error was
  reported.
\<close>

datatype 'a body = Bind 'a | BindErr 'a

fun ShouldBindJSON :: "'a body \<Rightarrow> 'a \<times> bool" where
  "ShouldBindJSON (Bind x) = (x, False)"
| "ShouldBindJSON (BindErr x) = (x, True)"

text \<open>
  A response is \<^verbatim>\<open>util.ResponseError(c, err)\<close> (\<open>Inl err\<close>) or
  \<^verbatim>\<open>util.ResponseSuccess(c, data)\<close> (\<open>Inr data\<close>).
\<close>

datatype data =
    DBook Book
  | DNote Note
  | DNotes "Note list"
  | DObjectID ObjectID
  | DInt int
  | DDoc doc

type_synonym response = "error + data"

section \<open>Helpers of the package that are not among the source files\<close>

text \<open>
  Modelled from the spec: \<^verbatim>\<open>strIdToPrimitive\<close>, which the two edit handlers call on
  \<^verbatim>\<open>fields["id"]\<close>. The spec (4.2): the \<^verbatim>\<open>id\<close> is decoded via the identifier codec before
  use as the match key, and resolution fails when decoding fails. The block it replaced
  is still in \<^verbatim>\<open>EditBook\<close> as a comment: a value that is a string goes through
  \<^verbatim>\<open>ObjectIDFromHex\<close>, any other value (a missing key is \<^verbatim>\<open>nil\<close>) is \<^verbatim>\<open>"Invalid id"\<close>.
\<close>

definition strIdToPrimitive :: "bvalue option \<Rightarrow> error + ObjectID" where
  "strIdToPrimitive v =
     (case v of
        Some (VStr str) \<Rightarrow> ObjectIDFromHex str
      | _ \<Rightarrow> Inl InvalidId)"

text \<open>
  Modelled from the spec: \<^verbatim>\<open>getBook\<close>, which \<^verbatim>\<open>ListNoteByBook\<close> calls. The spec (4.4):
  list-notes-by-book loads the book; the caller then tests the loaded book's identifier
  against the nil identifier, as \<^verbatim>\<open>GetBook\<close> does after its own \<^verbatim>\<open>FindOne\<close> and
  \<^verbatim>\<open>Decode\<close>.
\<close>

definition getBook :: "ObjectID \<Rightarrow> Service \<Rightarrow> Book \<times> Service" where
  "getBook oid s =
     (let (res, s1) = FindOne BookColl (''id'', oid) s in
      (DecodeBook res zeroBook, s1))"

text \<open>
  Modelled from the spec: \<^verbatim>\<open>deleteNote\<close>, which \<^verbatim>\<open>AddNote\<close> calls to compensate and
  \<^verbatim>\<open>DeleteNote\<close> calls to detach. The spec (4.3, 7): the step removes the note identifier
  from the \<^verbatim>\<open>notes\<close> sequence of the book with the given identifier; the caller is told
  whether the step succeeded, and fails with \<^verbatim>\<open>DetachFailed\<close> when the relationship-list
  removal did not succeed; a failure is logged and not retried. The removal is the
  counterpart of the append in \<^verbatim>\<open>AddNote\<close>: one \<^verbatim>\<open>UpdateOne\<close> on the book with \<^verbatim>\<open>$pull\<close>.
  The step has succeeded when the driver reports no error and a book with the
  identifier was there to remove from: the spec counts an update of a book that does
  not exist as a failure (4.3, creation step 1), and it has a note deleted only once it
  is off its book's list (P3), which a removal from no book does not bring about.
\<close>

definition deleteNote :: "ObjectID \<Rightarrow> ObjectID \<Rightarrow> Service \<Rightarrow> bool \<times> Service" where
  "deleteNote bookID noteID s =
     (let (res, s1) = UpdateOne BookColl (''id'', bookID) (Pull ''notes'' (VOid noteID)) s in
      (case res of
         Inl err \<Rightarrow> (False, Printf ''Could not remove note from book: %v'' s1)
       | Inr r \<Rightarrow>
           if MatchedCount r = 0 then (False, Printf ''Could not remove note from book: %v'' s1)
           else (True, s1)))"

section \<open>The handlers\<close>

text \<open>
  Each handler takes what it reads from the request (a path, query or form parameter as
  a string, a body as the binder's outcome), the values it draws from its environment
  (\<^verbatim>\<open>primitive.NewObjectID()\<close>, \<^verbatim>\<open>time.Now()\<close>) and the service; it returns the response
  and the service afterwards.
\<close>

definition GetBook :: "string \<Rightarrow> Service \<Rightarrow> response \<times> Service" where
  "GetBook id' s =
     (case ObjectIDFromHex id' of
        Inl err \<Rightarrow> (Inl err, Printf ''Invalid id'' s)
      | Inr oid \<Rightarrow>
          (let (res, s1) = FindOne BookColl (''id'', oid) s;
               book = DecodeBook res zeroBook
           in if Book_ID book = NilObjectID then (Inl (NotExist id'), s1)
              else (Inr (DBook book), s1)))"

definition AddBook :: "Book body \<Rightarrow> ObjectID \<Rightarrow> Service \<Rightarrow> response \<times> Service" where
  "AddBook body newID s =
     (let (book0, bindErr) = ShouldBindJSON body;
          book = book0\<lparr>Book_ID := newID, Notes := []\<rparr>;
          (res, s1) = InsertOne BookColl (bookDoc book) s
      in (case res of
            Inl err \<Rightarrow> (Inl err, Printf ''Could not create Book: %v'' s1)
          | Inr u \<Rightarrow> (Inr (DObjectID (Book_ID book)), s1)))"

definition DeleteBook :: "string \<Rightarrow> Service \<Rightarrow> response \<times> Service" where
  "DeleteBook id' s =
     (case ObjectIDFromHex id' of
        Inl err \<Rightarrow> (Inl err, Printf ''Invalid id'' s)
      | Inr oid \<Rightarrow>
          (let (res1, s1) = DeleteMany NoteColl (''bookid'', oid) s in
           (case res1 of
              Inl err \<Rightarrow> (Inl err, Printf ''Could not delete book %v's notes. Error: %v'' s1)
            | Inr n \<Rightarrow>
                (let (res2, s2) = DeleteOne BookColl (''id'', oid) s1 in
                 (case res2 of
                    Inl err \<Rightarrow> (Inl err, Printf ''Could not delete book %v. Error: %v'' s2)
                  | Inr DeletedCount \<Rightarrow> (Inr (DInt DeletedCount), s2))))))"

text \<open>
  The field map of an edit is a Go map: an association list with distinct keys, in the
  order the \<^verbatim>\<open>range\<close> loop happens to visit them. \<^verbatim>\<open>fields["id"] = oid\<close> overwrites the
  entry; the loop keeps every entry whose value is not the string \<^verbatim>\<open>""\<close>.
\<close>

definition nonEmpty :: "doc \<Rightarrow> doc" where
  "nonEmpty fs = filter (\<lambda>(k, v). v \<noteq> VStr []) fs"

definition EditBook :: "doc body \<Rightarrow> Service \<Rightarrow> response \<times> Service" where
  "EditBook body s =
     (let (fields0, bindErr) = ShouldBindJSON body in
      (case strIdToPrimitive (map_of fields0 ''id'') of
         Inl err \<Rightarrow> (Inl InvalidId, s)
       | Inr oid \<Rightarrow>
           (let fields1 = AList.update ''id'' (VOid oid) fields0;
                updateFields = nonEmpty fields1;
                (res, s1) = FindOneAndUpdate BookColl (''id'', oid) (Set updateFields) s
            in (case res of
                  Inl err \<Rightarrow>
                    (if err = ErrNoDocuments then (Inl (NoMatch oid), s1)
                     else (Inl err, Printf ''Could not edit book %v. Error: %v'' s1))
                | Inr updatedDocument \<Rightarrow> (Inr (DDoc updatedDocument), s1)))))"

fun listNotes :: "ObjectID list \<Rightarrow> Service \<Rightarrow> Note list \<times> Service" where
  "listNotes [] s = ([], s)"
| "listNotes (noteID # noteIDs) s =
     (let (res, s1) = FindOne NoteColl (''id'', noteID) s;
          note = DecodeNote res zeroNote;
          (notes, s2) = listNotes noteIDs s1
      in (note # notes, s2))"

definition ListNoteByBook :: "string \<Rightarrow> Service \<Rightarrow> response \<times> Service" where
  "ListNoteByBook id' s =
     (case ObjectIDFromHex id' of
        Inl err \<Rightarrow> (Inl err, Printf ''Invalid id'' s)
      | Inr oid \<Rightarrow>
          (let (book, s1) = getBook oid s in
           if Book_ID book = NilObjectID then (Inl (NotExist id'), s1)
           else (let (notes, s2) = listNotes (Notes book) s1 in (Inr (DNotes notes), s2))))"

definition GetNote :: "string \<Rightarrow> Service \<Rightarrow> response \<times> Service" where
  "GetNote id' s =
     (case ObjectIDFromHex id' of
        Inl err \<Rightarrow> (Inl err, Printf ''Invalid id'' s)
      | Inr oid \<Rightarrow>
          (let (res, s1) = FindOne NoteColl (''id'', oid) s;
               note = DecodeNote res zeroNote
           in if ID note = NilObjectID then (Inl (NotExist id'), s1)
              else (Inr (DNote note), s1)))"

definition AddNote :: "Note body \<Rightarrow> ObjectID \<Rightarrow> Time \<Rightarrow> Service \<Rightarrow> response \<times> Service" where
  "AddNote body newID now s =
     (let (note0, bindErr) = ShouldBindJSON body;
          note = note0\<lparr>ID := newID, CreateTime := now\<rparr>;
          (res1, s1) = UpdateOne BookColl (''id'', BookID note) (Push ''notes'' (VOid (ID note))) s
      in (case res1 of
            Inl err \<Rightarrow> (Inl err, Printf ''Could not append note to book: %v'' s1)
          | Inr r \<Rightarrow>
              (let (res2, s2) = InsertOne NoteColl (noteDoc note) s1 in
               (case res2 of
                  Inl err \<Rightarrow>
                    (let s3 = Printf ''Could not create Note: %v'' s2;
                         (deleteOK, s4) = deleteNote (BookID note) (ID note) s3;
                         s5 = (if deleteOK then Printf ''Remove this note from book %v'' s4 else s4)
                     in (Inl err, s5))
                | Inr u \<Rightarrow> (Inr (DObjectID (ID note)), s2)))))"

definition DeleteNote :: "Note body \<Rightarrow> Service \<Rightarrow> response \<times> Service" where
  "DeleteNote body s =
     (let (tempNote, bindErr) = ShouldBindJSON body;
          (res, s1) = FindOne NoteColl (''id'', ID tempNote) s;
          note = DecodeNote res zeroNote;
          bookID = BookID note;
          (isDeleted, s2) = deleteNote bookID (ID tempNote) s1
      in if \<not> isDeleted then (Inl (CannotRemove (ID tempNote) bookID), s2)
         else (let (delNoteRes, s3) = DeleteOne NoteColl (''id'', ID tempNote) s2 in
               (case delNoteRes of
                  Inl err \<Rightarrow> (Inl err, Printf ''Could not delete Note. Error: %v'' s3)
                | Inr DeletedCount \<Rightarrow> (Inr (DInt DeletedCount), s3))))"

definition EditNote :: "doc body \<Rightarrow> Service \<Rightarrow> response \<times> Service" where
  "EditNote body s =
     (let (fields0, bindErr) = ShouldBindJSON body in
      (case strIdToPrimitive (map_of fields0 ''id'') of
         Inl err \<Rightarrow> (Inl InvalidId, s)
       | Inr oid \<Rightarrow>
           (let fields1 = AList.update ''id'' (VOid oid) fields0;
                updateFields = nonEmpty fields1;
                (res, s1) = UpdateOne NoteColl (''id'', oid) (Set updateFields) s
            in (case res of
                  Inl err \<Rightarrow> (Inl err, Printf ''Could not edit note %v. Error: %v'' s1)
                | Inr r \<Rightarrow> (Inr (DInt (ModifiedCount r)), s1)))))"

section \<open>Observations and example states\<close>

text \<open>
  \<open>noStoreAccess s s'\<close>: between \<open>s\<close> and \<open>s'\<close> no driver call was issued and both
  collections are as they were.
\<close>

definition noStoreAccess :: "Service \<Rightarrow> Service \<Rightarrow> bool" where
  "noStoreAccess s s' =
     (trace s' = trace s \<and> faults s' = faults s \<and> bookCollection s' = bookCollection s \<and>
      noteCollection s' = noteCollection s)"

text \<open>The note identifiers a book document lists in its \<^verbatim>\<open>notes\<close> array.\<close>

fun oidsOf :: "bvalue list \<Rightarrow> ObjectID list" where
  "oidsOf [] = []"
| "oidsOf (VOid n # vs) = n # oidsOf vs"
| "oidsOf (v # vs) = oidsOf vs"

definition noteIDs :: "doc \<Rightarrow> ObjectID list" where
  "noteIDs b = (case map_of b ''notes'' of Some (VArr xs) \<Rightarrow> oidsOf xs | _ \<Rightarrow> [])"





text \<open>
  \<open>ownsNotes b s\<close>: every note document that carries an identifier listed by the book
  document \<open>b\<close> has \<open>b\<close>'s \<^verbatim>\<open>id\<close> as its \<^verbatim>\<open>bookid\<close>.
\<close>

definition ownsNotes :: "doc \<Rightarrow> Service \<Rightarrow> bool" where
  "ownsNotes b s =
     list_all (\<lambda>d. list_all (\<lambda>n. \<not> matches (''id'', n) d \<or> map_of d ''bookid'' = map_of b ''id'')
        (noteIDs b)) (noteCollection s)"

text \<open>
  \<open>freshFor n s\<close>: every book document has its \<^verbatim>\<open>notes\<close> array (\<open>AddBook\<close> stores the
  empty one) and none lists \<open>n\<close>, as for an identifier \<^verbatim>\<open>primitive.NewObjectID()\<close> has
  just made.
\<close>

definition freshFor :: "ObjectID \<Rightarrow> Service \<Rightarrow> bool" where
  "freshFor n s =
     list_all (\<lambda>d. case map_of d ''notes'' of Some (VArr xs) \<Rightarrow> VOid n \<notin> set xs | _ \<Rightarrow> False)
       (bookCollection s)"



text \<open>
  Example states. \<open>library\<close> holds the book \<open>dune\<close> with its one note \<open>ch1\<close>; \<open>shelf\<close>
  holds a second book \<open>emma\<close> with its note \<open>vol1\<close> as well. \<open>ch2\<close> is a note for \<open>dune\<close>
  as a client sends it, without an identifier of its own. \<open>patch\<close> is the field map of an
  edit of \<open>dune\<close>: a new title, the empty string for the author, a zero status.
\<close>

definition emptyService :: Service where
  "emptyService =
     \<lparr>bookCollection = [], noteCollection = [], faults = [], trace = [], logs = []\<rparr>"

definition B1 :: ObjectID where "B1 = [0, 0, 0, 0, 0, 0, 0, 0, 0, 0, 0, 1]"

definition N1 :: ObjectID where "N1 = [0, 0, 0, 0, 0, 0, 0, 0, 0, 0, 0, 2]"

definition N2 :: ObjectID where "N2 = [0, 0, 0, 0, 0, 0, 0, 0, 0, 0, 0, 3]"

definition B2 :: ObjectID where "B2 = [0, 0, 0, 0, 0, 0, 0, 0, 0, 0, 0, 4]"

definition N3 :: ObjectID where "N3 = [0, 0, 0, 0, 0, 0, 0, 0, 0, 0, 0, 5]"

definition dune :: Book where
  "dune = zeroBook\<lparr>Book_ID := B1, Title := ''Dune'', Notes := [N1]\<rparr>"

definition ch1 :: Note where
  "ch1 = zeroNote\<lparr>ID := N1, BookID := B1, Content := ''ch1''\<rparr>"

definition ch2 :: Note where
  "ch2 = zeroNote\<lparr>BookID := B1, Content := ''ch2''\<rparr>"

definition emma :: Book where
  "emma = zeroBook\<lparr>Book_ID := B2, Title := ''Emma'', Notes := [N3]\<rparr>"

definition vol1 :: Note where
  "vol1 = zeroNote\<lparr>ID := N3, BookID := B2, Content := ''vol1''\<rparr>"

definition library :: Service where
  "library =
     \<lparr>bookCollection = [bookDoc dune], noteCollection = [noteDoc ch1], faults = [],
      trace = [], logs = []\<rparr>"

definition shelf :: Service where
  "shelf =
     \<lparr>bookCollection = [bookDoc dune, bookDoc emma],
      noteCollection = [noteDoc ch1, noteDoc vol1], faults = [], trace = [], logs = []\<rparr>"


section \<open>Properties\<close>

subsection \<open>What a driver call leaves behind\<close>

lemma noStoreAccess_Printf: "noStoreAccess s (Printf msg s)"
  by (simp add: noStoreAccess_def Printf_def)

lemma setDocs_other [simp]:
  "trace (setDocs c ds s) = trace s" "faults (setDocs c ds s) = faults s"
  "logs (setDocs c ds s) = logs s"
  by (cases c; simp)+

lemma docs_setDocs [simp]: "docs c' (setDocs c ds s) = (if c' = c then ds else docs c' s)"
  by (cases c; cases c'; simp)

lemma docs_upd [simp]:
  "docs c (s\<lparr>faults := f\<rparr>) = docs c s" "docs c (s\<lparr>trace := t\<rparr>) = docs c s"
  "docs c (s\<lparr>logs := l\<rparr>) = docs c s"
  by (cases c; simp)+

lemma Printf_simps [simp]:
  "trace (Printf m s) = trace s" "faults (Printf m s) = faults s"
  "bookCollection (Printf m s) = bookCollection s"
  "noteCollection (Printf m s) = noteCollection s"
  "logs (Printf m s) = logs s @ [m]"
  by (simp_all add: Printf_def)

lemma call_simps [simp]:
  "trace (snd (call c op s)) = trace s @ [(c, op)]"
  "faults (snd (call c op s)) = tl (faults s)"
  "bookCollection (snd (call c op s)) = bookCollection s"
  "noteCollection (snd (call c op s)) = noteCollection s"
  "logs (snd (call c op s)) = logs s"
  "docs c' (snd (call c op s)) = docs c' s"
  by (simp_all add: call_def)

lemma FindOne_state: "snd (FindOne c q s) = snd (call c (OpFindOne q) s)"
  by (simp add: FindOne_def split_beta split: option.splits)

lemma FindOne_simps [simp]:
  "trace (snd (FindOne c q s)) = trace s @ [(c, OpFindOne q)]"
  "bookCollection (snd (FindOne c q s)) = bookCollection s"
  "noteCollection (snd (FindOne c q s)) = noteCollection s"
  by (simp_all add: FindOne_state)

lemma FindOne_result:
  "\<not> nextFails s \<Longrightarrow>
     fst (FindOne c q s) =
       (case find (matches q) (docs c s) of None \<Rightarrow> Inl ErrNoDocuments | Some d \<Rightarrow> Inr d)"
  by (simp add: FindOne_def call_def split: option.splits)

lemma InsertOne_trace [simp]:
  "trace (snd (InsertOne c d s)) = trace s @ [(c, OpInsertOne d)]"
  by (simp add: InsertOne_def split_beta)

lemma UpdateOne_trace [simp]:
  "trace (snd (UpdateOne c q u s)) = trace s @ [(c, OpUpdateOne q u)]"
  by (simp add: UpdateOne_def split_beta split: option.splits)

lemma FindOneAndUpdate_trace [simp]:
  "trace (snd (FindOneAndUpdate c q u s)) = trace s @ [(c, OpFindOneAndUpdate q u)]"
  by (simp add: FindOneAndUpdate_def split_beta split: option.splits)

lemma DeleteOne_trace [simp]:
  "trace (snd (DeleteOne c q s)) = trace s @ [(c, OpDeleteOne q)]"
  by (simp add: DeleteOne_def split_beta)

lemma DeleteMany_trace [simp]:
  "trace (snd (DeleteMany c q s)) = trace s @ [(c, OpDeleteMany q)]"
  by (simp add: DeleteMany_def split_beta)

lemma deleteNote_trace [simp]:
  "trace (snd (deleteNote b n s)) =
     trace s @ [(BookColl, OpUpdateOne (''id'', b) (Pull ''notes'' (VOid n)))]"
  by (simp add: deleteNote_def split_beta split: sum.splits)


lemma UpdateOne_noteCollection [simp]:
  "noteCollection (snd (UpdateOne BookColl q u s)) = noteCollection s"
  by (simp add: UpdateOne_def split_beta split: option.splits)

lemma deleteNote_noteCollection [simp]:
  "noteCollection (snd (deleteNote b n s)) = noteCollection s"
  by (simp add: deleteNote_def split_beta split: sum.splits)

lemma InsertOne_failed:
  "InsertOne c d s = (Inl err, s2) \<Longrightarrow>
     err = DriverError c (OpInsertOne d) \<and> bookCollection s2 = bookCollection s \<and>
     noteCollection s2 = noteCollection s"
  by (auto simp add: InsertOne_def call_def Let_def split: if_splits)

lemma deleteNote_failed:
  "deleteNote b n s = (False, s') \<Longrightarrow>
     bookCollection s' = bookCollection s \<and>
     ''Could not remove note from book: %v'' \<in> set (logs s')"
  by (auto simp add: deleteNote_def UpdateOne_def call_def Let_def split_beta
      split: if_splits sum.splits option.splits)

lemma DeleteNote_trace_prefix:
  "\<exists>rest. trace (snd (DeleteNote body s)) =
      trace s @ (NoteColl, OpFindOne (''id'', ID (fst (ShouldBindJSON body)))) # rest"
  by (simp add: DeleteNote_def split_beta Let_def split: sum.splits)

subsection \<open>Lists and documents\<close>

lemma find_SomeD: "find P xs = Some d \<Longrightarrow> d \<in> set xs \<and> P d"
  by (induction xs) (auto split: if_splits)



lemma find_replaceFirst:
  "find P xs = Some d \<Longrightarrow> P y \<Longrightarrow> find P (replaceFirst P y xs) = Some y"
  by (induction xs) (auto split: if_splits)

lemma replaceFirst_twice:
  "find P xs = Some d \<Longrightarrow> P y \<Longrightarrow> replaceFirst P d (replaceFirst P y xs) = xs"
  by (induction xs) (auto split: if_splits)



lemma distinct_map_inj:
  "distinct (map f xs) \<Longrightarrow> a \<in> set xs \<Longrightarrow> b \<in> set xs \<Longrightarrow> f a = f b \<Longrightarrow> a = b"
  by (meson distinct_map inj_onD)

lemma matches_cong: "map_of d k = map_of d' k' \<Longrightarrow> matches (k, x) d = matches (k', x) d'"
  by (simp add: matches_def split: option.splits bvalue.splits)


lemma matches_update_notes:
  "k \<noteq> ''notes'' \<Longrightarrow> matches (k, b) (AList.update ''notes'' v d) = matches (k, b) d"
  by (simp add: matches_def update_conv')
















lemma push_then_pull:
  assumes "map_of d ''notes'' = Some (VArr xs)" and "VOid n \<notin> set xs"
  shows "\<exists>d1. applyUpdate (Push ''notes'' (VOid n)) d = Some d1 \<and>
           matches (''id'', b) d1 = matches (''id'', b) d \<and>
           applyUpdate (Pull ''notes'' (VOid n)) d1 = Some d"
proof -
  let ?d1 = "AList.update ''notes'' (VArr (xs @ [VOid n])) d"
  have 1: "applyUpdate (Push ''notes'' (VOid n)) d = Some ?d1"
    using assms(1) by simp
  have 2: "matches (''id'', b) ?d1 = matches (''id'', b) d"
    by (simp add: matches_update_notes)
  have "filter (\<lambda>x. x \<noteq> VOid n) xs = xs"
    using assms(2) by (auto simp add: filter_id_conv)
  then have 3: "applyUpdate (Pull ''notes'' (VOid n)) ?d1 = Some d"
    using assms(1) by (simp add: update_conv' update_triv)
  from 1 2 3 show ?thesis by blast
qed

lemma push_pull_restore:
  assumes fresh: "freshFor n s"
    and push: "UpdateOne BookColl (''id'', b) (Push ''notes'' (VOid n)) s = (Inr r1, s1)"
    and same: "bookCollection s3 = bookCollection s1"
    and pull: "deleteNote b n s3 = (True, s4)"
  shows "bookCollection s4 = bookCollection s"
proof (cases "find (matches (''id'', b)) (bookCollection s)")
  case None
  with push have "bookCollection s1 = bookCollection s"
    by (auto simp add: UpdateOne_def call_def Let_def split: if_splits)
  with same None pull show ?thesis
    by (auto simp add: deleteNote_def UpdateOne_def call_def Let_def split_beta
        split: if_splits sum.splits)
next
  case (Some d)
  from find_SomeD [OF Some] fresh have
    "case map_of d ''notes'' of Some (VArr xs) \<Rightarrow> VOid n \<notin> set xs | _ \<Rightarrow> False"
    by (simp add: freshFor_def list_all_iff)
  then obtain xs where xs: "map_of d ''notes'' = Some (VArr xs)" "VOid n \<notin> set xs"
    by (cases "map_of d ''notes''"; simp split: bvalue.splits)
  from push_then_pull [OF xs, of b] obtain d1 where
    d1: "applyUpdate (Push ''notes'' (VOid n)) d = Some d1"
      "matches (''id'', b) d1 = matches (''id'', b) d"
      "applyUpdate (Pull ''notes'' (VOid n)) d1 = Some d"
    by blast
  from find_SomeD [OF Some] d1(2) have m1: "matches (''id'', b) d1" by simp
  from push Some d1(1) have b1:
    "bookCollection s1 = replaceFirst (matches (''id'', b)) d1 (bookCollection s)"
    by (auto simp add: UpdateOne_def call_def Let_def split: if_splits)
  have f3: "find (matches (''id'', b)) (bookCollection s3) = Some d1"
    using same b1 find_replaceFirst [OF Some m1] by simp
  from pull f3 d1(3) have
    "bookCollection s4 = replaceFirst (matches (''id'', b)) d (bookCollection s3)"
    by (auto simp add: deleteNote_def UpdateOne_def call_def Let_def split_beta
        split: if_splits sum.splits)
  with same b1 replaceFirst_twice [OF Some m1] show ?thesis by simp
qed

subsection \<open>What a handler has done when it answers success\<close>




lemma DeleteBook_success:
  assumes "DeleteBook id' s = (Inr r, s')"
  shows "\<exists>oid. ObjectIDFromHex id' = Inr oid \<and>
           noteCollection s' = filter (\<lambda>d. \<not> matches (''bookid'', oid) d) (noteCollection s) \<and>
           bookCollection s' = deleteFirst (matches (''id'', oid)) (bookCollection s) \<and>
           trace s' = trace s @ [(NoteColl, OpDeleteMany (''bookid'', oid)),
                                 (BookColl, OpDeleteOne (''id'', oid))] \<and>
           r = DInt (if find (matches (''id'', oid)) (bookCollection s) = None then 0 else 1)"
  using assms
  by (auto simp add: DeleteBook_def DeleteMany_def DeleteOne_def call_def Let_def
      split: sum.splits prod.splits if_splits)



subsection \<open>Referential integrity\<close>











subsection \<open>Note creation\<close>

text \<open>
  C2 asks that creating a note for a \<^verbatim>\<open>bookID\<close> no book has fails with
  \<^verbatim>\<open>BookNotFound\<close> and persists nothing. \<open>AddNote\<close> tests only the error of the append,
  and an update that matches no book is no error: on the empty store the note \<open>ch2\<close> for
  the book \<open>B1\<close> is inserted and the answer is its new identifier.
\<close>

theorem C2_note_for_missing_book:
  "AddNote (Bind ch2) N2 7 emptyService =
     (Inr (DObjectID N2),
      emptyService\<lparr>noteCollection := [noteDoc (ch2\<lparr>ID := N2, CreateTime := 7\<rparr>)],
        trace := [(BookColl, OpUpdateOne (''id'', B1) (Push ''notes'' (VOid N2))),
                  (NoteColl, OpInsertOne (noteDoc (ch2\<lparr>ID := N2, CreateTime := 7\<rparr>)))]\<rparr>)"
  by code_simp

text \<open>
  C3. When the append to the book has succeeded and the insert of the note document
  fails, the answer is the error of the insert, whether the compensation succeeds or
  not. The compensation is attempted once: the driver calls of the whole run are the
  append, the insert and one removal of the new identifier from the same book. The note
  collection is as before. When the compensation succeeds and the identifier was new to
  the books, the book collection is as before as well; when it fails, the book collection
  stays as the append left it and the failure is in the log.
\<close>

theorem C3_compensation:
  assumes nt: "note = (fst (ShouldBindJSON body))\<lparr>ID := newID, CreateTime := now\<rparr>"
    and push: "UpdateOne BookColl (''id'', BookID note) (Push ''notes'' (VOid newID)) s = (Inr r1, s1)"
    and ins: "InsertOne NoteColl (noteDoc note) s1 = (Inl err, s2)"
    and comp: "deleteNote (BookID note) newID (Printf ''Could not create Note: %v'' s2) = (ok, s4)"
  shows "fst (AddNote body newID now s) = Inl err \<and>
         err = DriverError NoteColl (OpInsertOne (noteDoc note)) \<and>
         trace (snd (AddNote body newID now s)) =
           trace s @ [(BookColl, OpUpdateOne (''id'', BookID note) (Push ''notes'' (VOid newID))),
                      (NoteColl, OpInsertOne (noteDoc note)),
                      (BookColl, OpUpdateOne (''id'', BookID note) (Pull ''notes'' (VOid newID)))] \<and>
         noteCollection (snd (AddNote body newID now s)) = noteCollection s \<and>
         (ok \<and> freshFor newID s \<longrightarrow> bookCollection (snd (AddNote body newID now s)) = bookCollection s) \<and>
         (\<not> ok \<longrightarrow> bookCollection (snd (AddNote body newID now s)) = bookCollection s1 \<and>
                  ''Could not remove note from book: %v'' \<in> set (logs (snd (AddNote body newID now s))))"
proof -
  let ?s3 = "Printf ''Could not create Note: %v'' s2"
  have idn: "ID note = newID"
    using nt by simp
  have run: "AddNote body newID now s =
      (Inl err, if ok then Printf ''Remove this note from book %v'' s4 else s4)"
    using push ins comp
    by (simp add: nt AddNote_def Let_def split_beta)
  have s1: "s1 = snd (UpdateOne BookColl (''id'', BookID note) (Push ''notes'' (VOid newID)) s)"
    using push by simp
  have s2: "s2 = snd (InsertOne NoteColl (noteDoc note) s1)"
    using ins by simp
  have s4: "s4 = snd (deleteNote (BookID note) newID ?s3)"
    using comp by simp
  have tr: "trace s4 =
      trace s @ [(BookColl, OpUpdateOne (''id'', BookID note) (Push ''notes'' (VOid newID))),
                 (NoteColl, OpInsertOne (noteDoc note)),
                 (BookColl, OpUpdateOne (''id'', BookID note) (Pull ''notes'' (VOid newID)))]"
    by (simp add: s4 s2 s1)
  from InsertOne_failed [OF ins] have e: "err = DriverError NoteColl (OpInsertOne (noteDoc note))"
    and b2: "bookCollection s2 = bookCollection s1" and n2: "noteCollection s2 = noteCollection s1"
    by simp_all
  have nc: "noteCollection s4 = noteCollection s"
    by (simp add: s4 n2) (simp add: s1)
  have restore: "bookCollection s4 = bookCollection s" if "ok" and "freshFor newID s"
  proof -
    have same: "bookCollection ?s3 = bookCollection s1"
      using b2 by simp
    from comp that(1) have "deleteNote (BookID note) newID ?s3 = (True, s4)" by simp
    from push_pull_restore [OF that(2) push same this] show ?thesis .
  qed
  have failed: "bookCollection s4 = bookCollection s1 \<and>
      ''Could not remove note from book: %v'' \<in> set (logs s4)" if "\<not> ok"
  proof -
    from comp that have "deleteNote (BookID note) newID ?s3 = (False, s4)" by simp
    from deleteNote_failed [OF this] b2 show ?thesis by simp
  qed
  from run e tr nc restore failed show ?thesis
    by (cases ok) simp_all
qed

text \<open>
  C3 in \<open>library\<close>, where the second driver call (the insert) fails: the answer is
  the insert's error and both collections are as they were.
\<close>

theorem C3_compensation_witness:
  "fst (AddNote (Bind ch2) N2 7 (library\<lparr>faults := [False, True]\<rparr>)) =
     Inl (DriverError NoteColl (OpInsertOne (noteDoc (ch2\<lparr>ID := N2, CreateTime := 7\<rparr>)))) \<and>
   bookCollection (snd (AddNote (Bind ch2) N2 7 (library\<lparr>faults := [False, True]\<rparr>))) =
     [bookDoc dune] \<and>
   noteCollection (snd (AddNote (Bind ch2) N2 7 (library\<lparr>faults := [False, True]\<rparr>))) =
     [noteDoc ch1]"
proof -
  let ?s = "library\<lparr>faults := [False, True]\<rparr>"
  let ?n = "ch2\<lparr>ID := N2, CreateTime := 7\<rparr>"
  let ?s1 = "snd (UpdateOne BookColl (''id'', BookID ?n) (Push ''notes'' (VOid N2)) ?s)"
  let ?s2 = "snd (InsertOne NoteColl (noteDoc ?n) ?s1)"
  let ?s4 = "snd (deleteNote (BookID ?n) N2 (Printf ''Could not create Note: %v'' ?s2))"
  have n: "?n = (fst (ShouldBindJSON (Bind ch2)))\<lparr>ID := N2, CreateTime := 7\<rparr>"
    by simp
  have push: "UpdateOne BookColl (''id'', BookID ?n) (Push ''notes'' (VOid N2)) ?s =
      (Inr \<lparr>MatchedCount = 1, ModifiedCount = 1\<rparr>, ?s1)"
    by code_simp
  have ins: "InsertOne NoteColl (noteDoc ?n) ?s1 =
      (Inl (DriverError NoteColl (OpInsertOne (noteDoc ?n))), ?s2)"
    by code_simp
  have comp: "deleteNote (BookID ?n) N2 (Printf ''Could not create Note: %v'' ?s2) = (True, ?s4)"
    by code_simp
  have fresh: "freshFor N2 ?s"
    by code_simp
  have b: "bookCollection ?s = [bookDoc dune]" and c: "noteCollection ?s = [noteDoc ch1]"
    by (simp_all add: library_def)
  from C3_compensation [OF n push ins comp] fresh b c show ?thesis
    by simp
qed

subsection \<open>Note deletion\<close>



text \<open>
  C5 asks that deleting a note whose identifier no note document has fails with
  \<^verbatim>\<open>NotFound\<close> before any mutation is attempted. \<open>DeleteNote\<close> has no such check (the
  lookups of \<open>GetNote\<close> and \<open>GetBook\<close> are followed by one): on the empty store it goes on
  to the detachment, an update of the book collection with the nil identifier for the
  book, and answers \<open>CannotRemove\<close>, the error of a failed detachment.
\<close>

theorem C5_unknown_note_not_reported:
  "DeleteNote (Bind ch1) emptyService =
     (Inl (CannotRemove N1 NilObjectID),
      emptyService\<lparr>trace :=
        [(NoteColl, OpFindOne (''id'', N1)),
         (BookColl, OpUpdateOne (''id'', NilObjectID) (Pull ''notes'' (VOid N1)))],
        logs := [''Could not remove note from book: %v'']\<rparr>)"
  by code_simp

subsection \<open>Identifier validation\<close>

text \<open>
  C6, as amended. The handlers that take an identifier as a path, query or form parameter
  (\<open>GetBook\<close>, \<open>DeleteBook\<close>, \<open>ListNoteByBook\<close>, \<open>GetNote\<close>) answer a string that
  \<open>ObjectIDFromHex\<close> refuses with that error, and the two edit handlers answer a body
  whose \<^verbatim>\<open>id\<close> field is such a string with \<open>InvalidId\<close>; in each case no driver call is
  issued and both collections stay as they were (the first four write one log line).
  \<open>AddNote\<close> and \<open>DeleteNote\<close> are not among them: they receive identifiers through the
  binder only.
\<close>

theorem C6_validation_before_store:
  assumes "ObjectIDFromHex id' = Inl e"
  shows "GetBook id' s = (Inl e, Printf ''Invalid id'' s) \<and>
         DeleteBook id' s = (Inl e, Printf ''Invalid id'' s) \<and>
         ListNoteByBook id' s = (Inl e, Printf ''Invalid id'' s) \<and>
         GetNote id' s = (Inl e, Printf ''Invalid id'' s) \<and>
         noStoreAccess s (Printf ''Invalid id'' s) \<and>
         (map_of (fst (ShouldBindJSON body)) ''id'' = Some (VStr id') \<longrightarrow>
            EditBook body s = (Inl InvalidId, s) \<and> EditNote body s = (Inl InvalidId, s))"
  using assms
  by (cases body)
     (simp_all add: GetBook_def DeleteBook_def ListNoteByBook_def GetNote_def EditBook_def
        EditNote_def strIdToPrimitive_def noStoreAccess_Printf)

text \<open>
  The amended C6 at the string \<open>xyz\<close>, as a path parameter of \<open>GetBook\<close> and as the
  \<^verbatim>\<open>id\<close> field of an edit.
\<close>

theorem C6_validation_witness:
  "ObjectIDFromHex ''xyz'' = Inl ErrInvalidHex \<and>
   GetBook ''xyz'' emptyService = (Inl ErrInvalidHex, Printf ''Invalid id'' emptyService) \<and>
   EditNote (Bind [(''id'', VStr ''xyz''), (''content'', VStr ''new'')]) emptyService
     = (Inl InvalidId, emptyService)"
proof -
  have h: "ObjectIDFromHex ''xyz'' = Inl ErrInvalidHex"
    by (simp add: ObjectIDFromHex_def)
  show ?thesis
    using h C6_validation_before_store [OF h, of emptyService
        "Bind [(''id'', VStr ''xyz''), (''content'', VStr ''new'')]"]
    by simp
qed

text \<open>
  C6 as stated fails for \<open>DeleteNote\<close>. A body whose \<^verbatim>\<open>id\<close> is no identifier makes the
  binder report an error and leave the zero note in the target; the handler drops the
  error and goes to the store with the nil identifier: two driver calls are issued, the
  lookup of the note and an update of the book collection, and the answer is
  \<open>CannotRemove\<close>, not an error of the identifier.
\<close>

theorem C6_delete_note_counterexample:
  "DeleteNote (BindErr zeroNote) emptyService =
     (Inl (CannotRemove NilObjectID NilObjectID),
      emptyService\<lparr>trace :=
        [(NoteColl, OpFindOne (''id'', NilObjectID)),
         (BookColl, OpUpdateOne (''id'', NilObjectID) (Pull ''notes'' (VOid NilObjectID)))],
        logs := [''Could not remove note from book: %v'']\<rparr>)"
  by code_simp

subsection \<open>Partial update\<close>



text \<open>
  C8 asks that an edit whose identifier matches no document reports \<^verbatim>\<open>NotFound\<close>, and
  that \<open>EditBook\<close> returns the updated document. \<open>EditNote\<close> on the empty store answers
  success with a count of zero. \<open>EditBook\<close> answers the document as it was before the
  update: the edit of \<open>dune\<close>'s title in \<open>library\<close> stores the new title and returns the
  old document.
\<close>

theorem C8_edit_results:
  "fst (EditNote (Bind [(''id'', VStr ''000000000000000000000002''), (''content'', VStr ''new'')])
          emptyService) = Inr (DInt 0) \<and>
   fst (EditBook (Bind [(''id'', VStr ''000000000000000000000001''), (''title'', VStr ''Arrakis'')])
          library) = Inr (DDoc (bookDoc dune)) \<and>
   bookCollection (snd (EditBook (Bind [(''id'', VStr ''000000000000000000000001''),
          (''title'', VStr ''Arrakis'')]) library)) = [bookDoc (dune\<lparr>Title := ''Arrakis''\<rparr>)]"
  by code_simp

subsection \<open>Book deletion\<close>

text \<open>
  C9. When \<open>DeleteBook\<close> answers success, the driver calls were the bulk delete of the
  notes whose \<^verbatim>\<open>bookid\<close> is the identifier followed by the delete of the book; the note
  collection afterwards is the one before without exactly those notes, the book
  collection is the one before without its first book of that identifier, and the answer
  is the number of books deleted. For every book of that identifier whose listed notes
  are its own, no note document afterwards carries an identifier the book listed.
\<close>

theorem C9_cascade:
  assumes "DeleteBook id' s = (Inr r, s')"
  shows "\<exists>oid. ObjectIDFromHex id' = Inr oid \<and>
           noteCollection s' = filter (\<lambda>d. \<not> matches (''bookid'', oid) d) (noteCollection s) \<and>
           bookCollection s' = deleteFirst (matches (''id'', oid)) (bookCollection s) \<and>
           trace s' = trace s @ [(NoteColl, OpDeleteMany (''bookid'', oid)),
                                 (BookColl, OpDeleteOne (''id'', oid))] \<and>
           r = DInt (if find (matches (''id'', oid)) (bookCollection s) = None then 0 else 1) \<and>
           (\<forall>b n d. b \<in> set (bookCollection s) \<and> matches (''id'', oid) b \<and> ownsNotes b s \<and>
                    n \<in> set (noteIDs b) \<and> d \<in> set (noteCollection s')
                \<longrightarrow> \<not> matches (''id'', n) d)"
proof -
  from DeleteBook_success [OF assms] obtain oid where
    oid: "ObjectIDFromHex id' = Inr oid"
    and nc: "noteCollection s' = filter (\<lambda>d. \<not> matches (''bookid'', oid) d) (noteCollection s)"
    and rest: "bookCollection s' = deleteFirst (matches (''id'', oid)) (bookCollection s)"
      "trace s' = trace s @ [(NoteColl, OpDeleteMany (''bookid'', oid)),
                                 (BookColl, OpDeleteOne (''id'', oid))]"
      "r = DInt (if find (matches (''id'', oid)) (bookCollection s) = None then 0 else 1)"
    by blast
  have "\<not> matches (''id'', n) d"
    if b: "matches (''id'', oid) b" and own: "ownsNotes b s" and n: "n \<in> set (noteIDs b)"
      and d: "d \<in> set (noteCollection s')" for b n d
  proof
    assume m: "matches (''id'', n) d"
    from d nc have d0: "d \<in> set (noteCollection s)" and nm: "\<not> matches (''bookid'', oid) d"
      by auto
    from own d0 n m have "map_of d ''bookid'' = map_of b ''id''"
      by (auto simp add: ownsNotes_def list_all_iff)
    then have "matches (''bookid'', oid) d = matches (''id'', oid) b"
      by (rule matches_cong)
    with b nm show False by simp
  qed
  with oid nc rest show ?thesis by blast
qed

text \<open>
  C9 in \<open>shelf\<close>: deleting \<open>dune\<close> deletes one book and its note \<open>ch1\<close>, and leaves
  \<open>emma\<close> with its note.
\<close>

theorem C9_cascade_witness:
  "fst (DeleteBook ''000000000000000000000001'' shelf) = Inr (DInt 1) \<and>
   noteCollection (snd (DeleteBook ''000000000000000000000001'' shelf)) = [noteDoc vol1] \<and>
   bookCollection (snd (DeleteBook ''000000000000000000000001'' shelf)) = [bookDoc emma] \<and>
   \<not> list_ex (matches (''id'', N1)) (noteCollection (snd (DeleteBook ''000000000000000000000001'' shelf)))"
proof -
  let ?h = "''000000000000000000000001''"
  let ?s' = "snd (DeleteBook ?h shelf)"
  have r: "fst (DeleteBook ?h shelf) = Inr (DInt 1)"
    by code_simp
  then have run: "DeleteBook ?h shelf = (Inr (DInt 1), ?s')"
    by (simp add: prod_eq_iff)
  have hex: "ObjectIDFromHex ?h = Inr B1"
    by code_simp
  from C9_cascade [OF run] hex have
    nc: "noteCollection ?s' = filter (\<lambda>d. \<not> matches (''bookid'', B1) d) (noteCollection shelf)"
    and bc: "bookCollection ?s' = deleteFirst (matches (''id'', B1)) (bookCollection shelf)"
    and own: "\<forall>b n d. b \<in> set (bookCollection shelf) \<and> matches (''id'', B1) b \<and> ownsNotes b shelf \<and>
                    n \<in> set (noteIDs b) \<and> d \<in> set (noteCollection ?s')
                \<longrightarrow> \<not> matches (''id'', n) d"
    by auto
  have 1: "filter (\<lambda>d. \<not> matches (''bookid'', B1) d) (noteCollection shelf) = [noteDoc vol1]"
    by code_simp
  have 2: "deleteFirst (matches (''id'', B1)) (bookCollection shelf) = [bookDoc emma]"
    by code_simp
  have 3: "bookDoc dune \<in> set (bookCollection shelf)"
    by (simp add: shelf_def)
  have 4: "matches (''id'', B1) (bookDoc dune)" "ownsNotes (bookDoc dune) shelf"
    "N1 \<in> set (noteIDs (bookDoc dune))"
    by code_simp+
  from own 3 4 have "\<forall>d. d \<in> set (noteCollection ?s') \<longrightarrow> \<not> matches (''id'', N1) d"
    by blast
  then have "\<not> list_ex (matches (''id'', N1)) (noteCollection ?s')"
    by (simp add: list_ex_iff)
  with r nc bc 1 2 show ?thesis by simp
qed

subsection \<open>Request binding\<close>

text \<open>
  C10. On each of the five handlers that bind a body, an error of the binder changes
  nothing: the handler does with \<open>BindErr x\<close> what it does with \<open>Bind x\<close>, and it goes to
  the store with what the binder left in the target. After a binding error \<open>AddBook\<close>
  issues the insert of the book left in the target, and answers the new identifier
  unless the insert fails; \<open>AddNote\<close> issues the append to the book the target names;
  \<open>DeleteNote\<close> issues the lookup of the identifier in the target, the nil identifier for
  the zero note; an edit whose field map has an \<^verbatim>\<open>id\<close> that decodes issues its update
  with the fields of the map, and otherwise ends at its own identifier check, as it
  does for the empty field map.
\<close>

theorem C10_binding_errors_discarded:
  "AddBook (BindErr b) newID s = AddBook (Bind b) newID s \<and>
   AddNote (BindErr n) newID now s = AddNote (Bind n) newID now s \<and>
   DeleteNote (BindErr n) s = DeleteNote (Bind n) s \<and>
   EditBook (BindErr fs) s = EditBook (Bind fs) s \<and>
   EditNote (BindErr fs) s = EditNote (Bind fs) s \<and>
   EditBook (BindErr []) s = (Inl InvalidId, s) \<and>
   (\<exists>rest. trace (snd (DeleteNote (BindErr zeroNote) s)) =
      trace s @ (NoteColl, OpFindOne (''id'', NilObjectID)) # rest) \<and>
   trace (snd (AddBook (BindErr b) newID s)) =
     trace s @ [(BookColl, OpInsertOne (bookDoc (b\<lparr>Book_ID := newID, Notes := []\<rparr>)))] \<and>
   fst (AddBook (BindErr b) newID s) =
     (if nextFails s
      then Inl (DriverError BookColl (OpInsertOne (bookDoc (b\<lparr>Book_ID := newID, Notes := []\<rparr>))))
      else Inr (DObjectID newID)) \<and>
   bookCollection (snd (AddBook (BindErr b) newID s)) =
     (if nextFails s then bookCollection s
      else bookCollection s @ [bookDoc (b\<lparr>Book_ID := newID, Notes := []\<rparr>)]) \<and>
   (\<exists>rest. trace (snd (AddNote (BindErr n) newID now s)) =
      trace s @ (BookColl, OpUpdateOne (''id'', BookID n) (Push ''notes'' (VOid newID))) # rest) \<and>
   (\<exists>rest. trace (snd (DeleteNote (BindErr n) s)) =
      trace s @ (NoteColl, OpFindOne (''id'', ID n)) # rest) \<and>
   (case strIdToPrimitive (map_of fs ''id'') of
      Inl e \<Rightarrow> EditBook (BindErr fs) s = (Inl InvalidId, s)
    | Inr oid \<Rightarrow>
        trace (snd (EditBook (BindErr fs) s)) =
          trace s @ [(BookColl, OpFindOneAndUpdate (''id'', oid)
                        (Set (nonEmpty (AList.update ''id'' (VOid oid) fs))))]) \<and>
   (case strIdToPrimitive (map_of fs ''id'') of
      Inl e \<Rightarrow> EditNote (BindErr fs) s = (Inl InvalidId, s)
    | Inr oid \<Rightarrow>
        trace (snd (EditNote (BindErr fs) s)) =
          trace s @ [(NoteColl, OpUpdateOne (''id'', oid)
                        (Set (nonEmpty (AList.update ''id'' (VOid oid) fs))))]) \<and>
   EditNote (BindErr []) s = (Inl InvalidId, s)"
proof -
  have 1: "AddBook (BindErr b) newID s = AddBook (Bind b) newID s"
    by (simp add: AddBook_def)
  have 2: "AddNote (BindErr n) newID now s = AddNote (Bind n) newID now s"
    by (simp add: AddNote_def)
  have 3: "DeleteNote (BindErr n) s = DeleteNote (Bind n) s"
    by (simp add: DeleteNote_def)
  have 4: "EditBook (BindErr fs) s = EditBook (Bind fs) s"
    by (simp add: EditBook_def)
  have 5: "EditNote (BindErr fs) s = EditNote (Bind fs) s"
    by (simp add: EditNote_def)
  have 6: "EditBook (BindErr []) s = (Inl InvalidId, s)"
    by (simp add: EditBook_def strIdToPrimitive_def)
  have 7: "\<exists>rest. trace (snd (DeleteNote (BindErr zeroNote) s)) =
      trace s @ (NoteColl, OpFindOne (''id'', NilObjectID)) # rest"
    using DeleteNote_trace_prefix [of "BindErr zeroNote" s]
    by (simp add: zeroNote_def)
  have 8: "trace (snd (AddBook (BindErr b) newID s)) =
      trace s @ [(BookColl, OpInsertOne (bookDoc (b\<lparr>Book_ID := newID, Notes := []\<rparr>)))]"
    by (simp add: AddBook_def split_beta Let_def split: sum.splits)
  have 9: "fst (AddBook (BindErr b) newID s) =
      (if nextFails s
       then Inl (DriverError BookColl (OpInsertOne (bookDoc (b\<lparr>Book_ID := newID, Notes := []\<rparr>))))
       else Inr (DObjectID newID))"
    by (simp add: AddBook_def InsertOne_def call_def Let_def)
  have 10: "bookCollection (snd (AddBook (BindErr b) newID s)) =
      (if nextFails s then bookCollection s
       else bookCollection s @ [bookDoc (b\<lparr>Book_ID := newID, Notes := []\<rparr>)])"
    by (simp add: AddBook_def InsertOne_def call_def Let_def)
  have 11: "\<exists>rest. trace (snd (AddNote (BindErr n) newID now s)) =
      trace s @ (BookColl, OpUpdateOne (''id'', BookID n) (Push ''notes'' (VOid newID))) # rest"
    by (simp add: AddNote_def split_beta Let_def split: sum.splits)
  have 12: "\<exists>rest. trace (snd (DeleteNote (BindErr n) s)) =
      trace s @ (NoteColl, OpFindOne (''id'', ID n)) # rest"
    using DeleteNote_trace_prefix [of "BindErr n" s]
    by simp
  have 13: "(case strIdToPrimitive (map_of fs ''id'') of
      Inl e \<Rightarrow> EditBook (BindErr fs) s = (Inl InvalidId, s)
    | Inr oid \<Rightarrow>
        trace (snd (EditBook (BindErr fs) s)) =
          trace s @ [(BookColl, OpFindOneAndUpdate (''id'', oid)
                        (Set (nonEmpty (AList.update ''id'' (VOid oid) fs))))])"
    by (simp add: EditBook_def split_beta Let_def split: sum.splits)
  have 14: "(case strIdToPrimitive (map_of fs ''id'') of
      Inl e \<Rightarrow> EditNote (BindErr fs) s = (Inl InvalidId, s)
    | Inr oid \<Rightarrow>
        trace (snd (EditNote (BindErr fs) s)) =
          trace s @ [(NoteColl, OpUpdateOne (''id'', oid)
                        (Set (nonEmpty (AList.update ''id'' (VOid oid) fs))))])"
    by (simp add: EditNote_def split_beta Let_def split: sum.splits)
  have 15: "EditNote (BindErr []) s = (Inl InvalidId, s)"
    by (simp add: EditNote_def strIdToPrimitive_def)
  from 1 2 3 4 5 6 7 8 9 10 11 12 13 14 15 show ?thesis
    by (intro conjI)
qed

text \<open>
  C10 at bodies the binder has reported an error for. \<open>AddBook\<close> stores the zero book
  under the new identifier; \<open>AddNote\<close> stores the note \<open>ch2\<close> and appends it to \<open>dune\<close>;
  \<open>DeleteNote\<close> deletes the note \<open>ch1\<close>; \<open>EditBook\<close> and \<open>EditNote\<close> store the new title
  and the new content.
\<close>

theorem C10_binding_errors_witness:
  "AddBook (BindErr zeroBook) B1 emptyService =
     (Inr (DObjectID B1),
      emptyService\<lparr>bookCollection := [bookDoc (zeroBook\<lparr>Book_ID := B1\<rparr>)],
        trace := [(BookColl, OpInsertOne (bookDoc (zeroBook\<lparr>Book_ID := B1\<rparr>)))]\<rparr>) \<and>
   fst (AddNote (BindErr ch2) N2 7 library) = Inr (DObjectID N2) \<and>
   bookCollection (snd (AddNote (BindErr ch2) N2 7 library)) = [bookDoc (dune\<lparr>Notes := [N1, N2]\<rparr>)] \<and>
   noteCollection (snd (AddNote (BindErr ch2) N2 7 library)) =
     [noteDoc ch1, noteDoc (ch2\<lparr>ID := N2, CreateTime := 7\<rparr>)] \<and>
   fst (DeleteNote (BindErr ch1) library) = Inr (DInt 1) \<and>
   noteCollection (snd (DeleteNote (BindErr ch1) library)) = [] \<and>
   fst (EditBook (BindErr [(''id'', VStr ''000000000000000000000001''), (''title'', VStr ''Arrakis'')])
          library) = Inr (DDoc (bookDoc dune)) \<and>
   bookCollection (snd (EditBook (BindErr [(''id'', VStr ''000000000000000000000001''),
          (''title'', VStr ''Arrakis'')]) library)) = [bookDoc (dune\<lparr>Title := ''Arrakis''\<rparr>)] \<and>
   fst (EditNote (BindErr [(''id'', VStr ''000000000000000000000002''), (''content'', VStr ''new'')])
          library) = Inr (DInt 1) \<and>
   noteCollection (snd (EditNote (BindErr [(''id'', VStr ''000000000000000000000002''),
          (''content'', VStr ''new'')]) library)) = [noteDoc (ch1\<lparr>Content := ''new''\<rparr>)]"
proof -
  let ?eb = "[(''id'', VStr ''000000000000000000000001''), (''title'', VStr ''Arrakis'')]"
  let ?en = "[(''id'', VStr ''000000000000000000000002''), (''content'', VStr ''new'')]"
  have 1: "AddBook (Bind zeroBook) B1 emptyService =
     (Inr (DObjectID B1),
      emptyService\<lparr>bookCollection := [bookDoc (zeroBook\<lparr>Book_ID := B1\<rparr>)],
        trace := [(BookColl, OpInsertOne (bookDoc (zeroBook\<lparr>Book_ID := B1\<rparr>)))]\<rparr>)"
    by code_simp
  have 2: "fst (AddNote (Bind ch2) N2 7 library) = Inr (DObjectID N2)"
    "bookCollection (snd (AddNote (Bind ch2) N2 7 library)) = [bookDoc (dune\<lparr>Notes := [N1, N2]\<rparr>)]"
    "noteCollection (snd (AddNote (Bind ch2) N2 7 library)) =
       [noteDoc ch1, noteDoc (ch2\<lparr>ID := N2, CreateTime := 7\<rparr>)]"
    by code_simp+
  have 3: "fst (DeleteNote (Bind ch1) library) = Inr (DInt 1)"
    "noteCollection (snd (DeleteNote (Bind ch1) library)) = []"
    by code_simp+
  have 4: "fst (EditBook (Bind ?eb) library) = Inr (DDoc (bookDoc dune))"
    "bookCollection (snd (EditBook (Bind ?eb) library)) = [bookDoc (dune\<lparr>Title := ''Arrakis''\<rparr>)]"
    by code_simp+
  have 5: "fst (EditNote (Bind ?en) library) = Inr (DInt 1)"
    "noteCollection (snd (EditNote (Bind ?en) library)) = [noteDoc (ch1\<lparr>Content := ''new''\<rparr>)]"
    by code_simp+
  have b: "AddBook (BindErr zeroBook) B1 emptyService = AddBook (Bind zeroBook) B1 emptyService"
    using C10_binding_errors_discarded [where b = zeroBook and newID = B1 and s = emptyService] by blast
  have n: "AddNote (BindErr ch2) N2 7 library = AddNote (Bind ch2) N2 7 library"
    using C10_binding_errors_discarded [where n = ch2 and newID = N2 and now = 7 and s = library] by blast
  have d: "DeleteNote (BindErr ch1) library = DeleteNote (Bind ch1) library"
    using C10_binding_errors_discarded [where n = ch1 and s = library] by blast
  have eb: "EditBook (BindErr ?eb) library = EditBook (Bind ?eb) library"
    using C10_binding_errors_discarded [where fs = ?eb and s = library] by blast
  have en: "EditNote (BindErr ?en) library = EditNote (Bind ?en) library"
    using C10_binding_errors_discarded [where fs = ?en and s = library] by blast
  from 1 2 3 4 5 show ?thesis
    unfolding b n d eb en by (intro conjI)
qed

end
